theory Spec2Isabelle
  imports Complex_Main "HOL-Library.AList"
begin

section \<open>The environment of a client: wall clock and HTTP transport\<close>

text \<open>
  The module \<^verbatim>\<open>migration/kaiten_migration.py\<close> talks to the outside world through
  \<^verbatim>\<open>time.time()\<close>, \<^verbatim>\<open>time.sleep()\<close> and \<^verbatim>\<open>requests.request()\<close>. The world is an explicit
  state: the wall clock, the number of clock readings made so far, and the requests put
  on the wire so far (with the clock value at which each was sent). What the outside does
  is given by two oracles: \<open>elapse i\<close> is the time that passes before the \<open>i\<close>-th reading
  of the clock, \<open>respond n rq\<close> is the outcome of the \<open>n\<close>-th call of
  \<^verbatim>\<open>requests.request\<close>. Time is an exact real number of seconds (the source uses floats).
\<close>

datatype json =
    JNull
  | JBool bool
  | JInt int
  | JStr string
  | JList "json list"
  | JObj "(string \<times> json) list"

type_synonym http_request = "string \<times> string \<times> (string \<times> json) list"

datatype outcome =
    Raises
  | Response int string "json option"

record world =
  clock :: real
  ticks :: nat
  wire :: "(real \<times> http_request) list"

record env =
  elapse :: "nat \<Rightarrow> real"
  respond :: "nat \<Rightarrow> http_request \<Rightarrow> outcome"

definition time_time :: "env \<Rightarrow> world \<Rightarrow> real \<times> world" where
  "time_time e w =
     (let t = clock w + elapse e (ticks w)
      in (t, w\<lparr>clock := t, ticks := Suc (ticks w)\<rparr>))"

definition time_sleep :: "real \<Rightarrow> world \<Rightarrow> world" where
  "time_sleep d w = w\<lparr>clock := clock w + d\<rparr>"

section \<open>KaitenAPI: the rate governor\<close>

record client =
  request_times :: "real list"
  request_count :: int

definition new_client :: client where
  "new_client = \<lparr>request_times = [], request_count = 0\<rparr>"

text \<open>
  \<^verbatim>\<open>KaitenAPI._rate_limit\<close>: prune the stamps older than one second, sleep when five
  remain, prune again after the sleep, append the current time.
\<close>

definition rate_limit :: "env \<Rightarrow> client \<times> world \<Rightarrow> client \<times> world" where
  "rate_limit e cw =
     (let c = fst cw; w = snd cw;
          (now, w1) = time_time e w;
          rt = filter (\<lambda>t. now - t < 1.0) (request_times c)
      in if length rt \<ge> 5 then
           (let sleep_time = 1.0 - (now - rt ! 0) + 0.05
            in if sleep_time > 0 then
                 (let w2 = time_sleep sleep_time w1;
                      (now2, w3) = time_time e w2;
                      rt2 = filter (\<lambda>t. now2 - t < 1.0) rt
                  in (c\<lparr>request_times := rt2 @ [now2],
                         request_count := request_count c + 1\<rparr>, w3))
               else (c\<lparr>request_times := rt @ [now],
                       request_count := request_count c + 1\<rparr>, w1))
         else (c\<lparr>request_times := rt @ [now],
                 request_count := request_count c + 1\<rparr>, w1))"



section \<open>KaitenAPI: the transport client\<close>

text \<open>
  \<^verbatim>\<open>KaitenAPI._request\<close>. An attempt first passes the rate governor, then calls
  \<^verbatim>\<open>requests.request\<close>. The outcome \<open>Raises\<close> is any exception of the transport;
  \<open>Response status text js\<close> is a response with its status code, its body text and the
  value of \<^verbatim>\<open>response.json()\<close> (\<open>None\<close> when parsing raises). A 429 sleeps two
  seconds and calls \<^verbatim>\<open>_request\<close> again with the same arguments; nothing bounds the
  number of retries, so the function is partial. \<^verbatim>\<open>raise_for_status\<close> raises for a
  status from 400 to 599. The value returned is a JSON value, \<open>JNull\<close> being Python's
  \<^verbatim>\<open>None\<close> (also what a body \<^verbatim>\<open>null\<close> parses to); the function's result is \<open>None\<close>
  only when the retries never end. Logging is left out of this layer.
\<close>

partial_function (option) request ::
  "env \<Rightarrow> string \<Rightarrow> string \<Rightarrow> (string \<times> json) list \<Rightarrow> client \<times> world
     \<Rightarrow> (json \<times> client \<times> world) option" where
  "request e method endpoint kwargs cw =
     (let cw1 = rate_limit e cw; c1 = fst cw1; w1 = snd cw1;
          rq = (method, endpoint, kwargs);
          w2 = w1\<lparr>wire := wire w1 @ [(clock w1, rq)]\<rparr>
      in case respond e (length (wire w1)) rq of
           Raises \<Rightarrow> Some (JNull, c1, w2)
         | Response status text js \<Rightarrow>
             if status = 429 then request e method endpoint kwargs (c1, time_sleep 2 w2)
             else if 400 \<le> status \<and> status < 600 then Some (JNull, c1, w2)
             else if text = [] then Some (JObj [], c1, w2)
             else (case js of
                     None \<Rightarrow> Some (JNull, c1, w2)
                   | Some j \<Rightarrow> Some (j, c1, w2)))"


definition post ::
  "env \<Rightarrow> string \<Rightarrow> json \<Rightarrow> client \<times> world \<Rightarrow> (json \<times> client \<times> world) option" where
  "post e endpoint data = request e ''POST'' endpoint [(''json'', data)]"

definition patch ::
  "env \<Rightarrow> string \<Rightarrow> json \<Rightarrow> client \<times> world \<Rightarrow> (json \<times> client \<times> world) option" where
  "patch e endpoint data = request e ''PATCH'' endpoint [(''json'', data)]"

definition delete ::
  "env \<Rightarrow> string \<Rightarrow> client \<times> world \<Rightarrow> (json \<times> client \<times> world) option" where
  "delete e endpoint = request e ''DELETE'' endpoint []"

section \<open>KaitenAPI: the paginator\<close>

datatype pyerror = KeyError | TypeError | AttributeError | ValueError

text \<open>Python's truth value of a JSON value, and what iterating over it yields.\<close>

fun truthy :: "json \<Rightarrow> bool" where
  "truthy JNull = False"
| "truthy (JBool b) = b"
| "truthy (JInt i) = (i \<noteq> 0)"
| "truthy (JStr s) = (s \<noteq> [])"
| "truthy (JList xs) = (xs \<noteq> [])"
| "truthy (JObj kvs) = (kvs \<noteq> [])"

fun py_iter :: "json \<Rightarrow> pyerror + json list" where
  "py_iter (JList xs) = Inr xs"
| "py_iter (JStr s) = Inr (map (\<lambda>c. JStr [c]) s)"
| "py_iter (JObj kvs) = Inr (map (\<lambda>kv. JStr (fst kv)) kvs)"
| "py_iter _ = Inl TypeError"





section \<open>KaitenMigration: values, dictionaries and the two clients\<close>

text \<open>
  The class \<^verbatim>\<open>KaitenMigration\<close> reads records from the source client and creates them
  through the target client. Records are the JSON values the clients return; \<open>JNull\<close> is
  Python's \<^verbatim>\<open>None\<close>. The accessors below raise what Python raises: subscripting a value
  that is not a dict is a \<^verbatim>\<open>TypeError\<close>, a missing key a \<^verbatim>\<open>KeyError\<close>, calling
  \<^verbatim>\<open>.get\<close> on a value that is not a dict an \<^verbatim>\<open>AttributeError\<close>, and a list or a dict
  used as a dictionary key a \<^verbatim>\<open>TypeError\<close>. JSON numbers are integers here (floats are
  not modelled), and a string is a list of bytes.
\<close>

fun getitem_id :: "json \<Rightarrow> pyerror + ((string \<times> json) list \<times> json)" where
  "getitem_id (JObj kvs) =
     (case map_of kvs ''id'' of None \<Rightarrow> Inl KeyError | Some i \<Rightarrow> Inr (kvs, i))"
| "getitem_id _ = Inl TypeError"

fun as_dict :: "json \<Rightarrow> pyerror + (string \<times> json) list" where
  "as_dict (JObj kvs) = Inr kvs"
| "as_dict _ = Inl AttributeError"

definition dget :: "(string \<times> json) list \<Rightarrow> string \<Rightarrow> json \<Rightarrow> json" where
  "dget kvs k d = (case map_of kvs k of Some v \<Rightarrow> v | None \<Rightarrow> d)"

fun starts_with :: "string \<Rightarrow> string \<Rightarrow> bool" where
  "starts_with [] s = True"
| "starts_with (p # ps) [] = False"
| "starts_with (p # ps) (c # cs) = (p = c \<and> starts_with ps cs)"

fun has_sub :: "string \<Rightarrow> string \<Rightarrow> bool" where
  "has_sub p [] = (p = [])"
| "has_sub p (c # cs) = (starts_with p (c # cs) \<or> has_sub p cs)"

text \<open>The test \<^verbatim>\<open>result and 'id' in result\<close>.\<close>

fun has_id :: "json \<Rightarrow> pyerror + bool" where
  "has_id JNull = Inr False"
| "has_id (JBool b) = (if b then Inl TypeError else Inr False)"
| "has_id (JInt i) = (if i = 0 then Inr False else Inl TypeError)"
| "has_id (JStr s) = Inr (has_sub ''id'' s)"
| "has_id (JList xs) = Inr (JStr ''id'' \<in> set xs)"
| "has_id (JObj kvs) = Inr (map_of kvs ''id'' \<noteq> None)"

text \<open>\<^verbatim>\<open>result['id']\<close> once the test has passed.\<close>

fun getitem :: "json \<Rightarrow> string \<Rightarrow> pyerror + json" where
  "getitem (JObj kvs) k = (case map_of kvs k of None \<Rightarrow> Inl KeyError | Some v \<Rightarrow> Inr v)"
| "getitem _ k = Inl TypeError"

text \<open>
  The dictionaries of \<^verbatim>\<open>id_map\<close> keep insertion order (the later stages iterate over
  \<^verbatim>\<open>id_map['cards'].items()\<close>); keys are compared as Python compares them, \<^verbatim>\<open>True\<close>
  being equal to 1 and \<^verbatim>\<open>False\<close> to 0.
\<close>

fun hashable :: "json \<Rightarrow> bool" where
  "hashable (JList xs) = False"
| "hashable (JObj kvs) = False"
| "hashable _ = True"

fun key_eq :: "json \<Rightarrow> json \<Rightarrow> bool" where
  "key_eq JNull JNull = True"
| "key_eq (JBool a) (JBool b) = (a = b)"
| "key_eq (JInt a) (JInt b) = (a = b)"
| "key_eq (JBool a) (JInt b) = ((if a then 1 else 0) = b)"
| "key_eq (JInt a) (JBool b) = (a = (if b then 1 else 0))"
| "key_eq (JStr a) (JStr b) = (a = b)"
| "key_eq _ _ = False"

fun dict_get :: "(json \<times> json) list \<Rightarrow> json \<Rightarrow> json" where
  "dict_get [] k = JNull"
| "dict_get (kv # d) k = (if key_eq (fst kv) k then snd kv else dict_get d k)"

fun dict_set :: "json \<Rightarrow> json \<Rightarrow> (json \<times> json) list \<Rightarrow> (json \<times> json) list" where
  "dict_set k v [] = [(k, v)]"
| "dict_set k v (kv # d) =
     (if key_eq (fst kv) k then (fst kv, v) # d else kv # dict_set k v d)"

text \<open>
  An f-string is kept as its parts: literal text and interpolated values. Endpoints stay
  in that form; where an f-string becomes a field of a request body it is rendered with
  \<open>py_str\<close>, Python's \<^verbatim>\<open>str()\<close>, which is a parameter of the model, as is \<open>py_int\<close>,
  Python's \<^verbatim>\<open>int()\<close> on a string (\<open>None\<close> when it raises \<^verbatim>\<open>ValueError\<close>).

  Every call of a method of \<^verbatim>\<open>self.source\<close> or \<^verbatim>\<open>self.target\<close> is an interaction with
  the environment: it is appended to \<open>calls\<close>, and its result is given by an oracle
  applied to the calls made before it. Calls are taken to return.
\<close>

datatype seg = Lit string | Val json

datatype call =
    SourcePaginated "seg list" "(string \<times> json) list option"
  | SourceGet "seg list"
  | TargetPost "seg list" json

record menv =
  source_get_paginated :: "call list \<Rightarrow> seg list \<Rightarrow> (string \<times> json) list option \<Rightarrow> pyerror + json list"
  source_get :: "call list \<Rightarrow> seg list \<Rightarrow> json"
  target_post :: "call list \<Rightarrow> seg list \<Rightarrow> json \<Rightarrow> json"
  py_str :: "json \<Rightarrow> string"
  py_int :: "string \<Rightarrow> int option"

record mig =
  id_map :: "string \<Rightarrow> (json \<times> json) list"
  stats :: "string \<Rightarrow> string \<Rightarrow> int"
  calls :: "call list"
  logged :: "(string \<times> string) list"
  exc :: "pyerror option"

definition new_migration :: mig where
  "new_migration =
     \<lparr>id_map = (\<lambda>kind. []), stats = (\<lambda>kind counter. 0), calls = [], logged = [], exc = None\<rparr>"

definition render :: "menv \<Rightarrow> seg list \<Rightarrow> string" where
  "render e segs = concat (map (\<lambda>g. case g of Lit t \<Rightarrow> t | Val v \<Rightarrow> py_str e v) segs)"

definition raise :: "pyerror \<Rightarrow> mig \<Rightarrow> mig" where
  "raise x s = s\<lparr>exc := Some x\<rparr>"

definition logger :: "string \<Rightarrow> string \<Rightarrow> mig \<Rightarrow> mig" where
  "logger level msg s = s\<lparr>logged := logged s @ [(level, msg)]\<rparr>"

definition set_total :: "string \<Rightarrow> int \<Rightarrow> mig \<Rightarrow> mig" where
  "set_total kind n s = s\<lparr>stats := (stats s)(kind := (stats s kind)(''total'' := n))\<rparr>"

definition add_to :: "string \<Rightarrow> string \<Rightarrow> int \<Rightarrow> mig \<Rightarrow> mig" where
  "add_to kind counter n s =
     s\<lparr>stats := (stats s)(kind := (stats s kind)(counter := stats s kind counter + n))\<rparr>"

definition set_id :: "string \<Rightarrow> json \<Rightarrow> json \<Rightarrow> mig \<Rightarrow> mig" where
  "set_id kind old new s =
     (if hashable old
      then s\<lparr>id_map := (id_map s)(kind := dict_set old new (id_map s kind))\<rparr>
      else raise TypeError s)"

definition lookup_id :: "string \<Rightarrow> json \<Rightarrow> mig \<Rightarrow> pyerror + json" where
  "lookup_id kind old s = (if hashable old then Inr (dict_get (id_map s kind) old) else Inl TypeError)"

definition source_paginated ::
  "menv \<Rightarrow> seg list \<Rightarrow> (string \<times> json) list option \<Rightarrow> mig \<Rightarrow> (pyerror + json list) \<times> mig" where
  "source_paginated e ep params s =
     (source_get_paginated e (calls s) ep params,
      s\<lparr>calls := calls s @ [SourcePaginated ep params]\<rparr>)"

definition source_fetch :: "menv \<Rightarrow> seg list \<Rightarrow> mig \<Rightarrow> json \<times> mig" where
  "source_fetch e ep s = (source_get e (calls s) ep, s\<lparr>calls := calls s @ [SourceGet ep]\<rparr>)"

definition target_create :: "menv \<Rightarrow> seg list \<Rightarrow> json \<Rightarrow> mig \<Rightarrow> json \<times> mig" where
  "target_create e ep body s =
     (target_post e (calls s) ep body, s\<lparr>calls := calls s @ [TargetPost ep body]\<rparr>)"

text \<open>
  A \<^verbatim>\<open>for\<close> loop: the body runs for each element in turn until one raises. The raised
  exception stays in \<open>exc\<close> with the state as it was when it was raised.
\<close>

fun for_each :: "('a \<Rightarrow> mig \<Rightarrow> mig) \<Rightarrow> 'a list \<Rightarrow> mig \<Rightarrow> mig" where
  "for_each f [] s = s"
| "for_each f (x # xs) s =
     (let s' = f x s in if exc s' = None then for_each f xs s' else s')"

definition and_then :: "(mig \<Rightarrow> mig) \<Rightarrow> (mig \<Rightarrow> mig) \<Rightarrow> mig \<Rightarrow> mig" where
  "and_then f g s = (let s' = f s in if exc s' = None then g s' else s')"

section \<open>KaitenMigration: custom properties and tags\<close>

definition migrate_custom_property :: "menv \<Rightarrow> json \<Rightarrow> mig \<Rightarrow> mig" where
  "migrate_custom_property e prop s =
     (case getitem_id prop of
        Inl x \<Rightarrow> raise x s
      | Inr (kvs, prop_id) \<Rightarrow>
          (let prop_name = dget kvs ''name'' (JStr (render e [Lit ''Property '', Val prop_id]));
               new_prop = JObj [(''name'', prop_name), (''type'', dget kvs ''type'' JNull),
                                (''settings'', dget kvs ''settings'' (JObj []))];
               s1 = logger ''info'' ''creating custom property'' s;
               (result, s2) = target_create e [Lit ''/custom-properties''] new_prop s1
           in case has_id result of
                Inl x \<Rightarrow> raise x s2
              | Inr True \<Rightarrow>
                  (case getitem result ''id'' of
                     Inl x \<Rightarrow> raise x s2
                   | Inr new_id \<Rightarrow>
                       and_then (set_id ''properties'' prop_id new_id)
                         (\<lambda>t. logger ''info'' ''custom property created''
                                (add_to ''custom_properties'' ''migrated'' 1 t)) s2)
              | Inr False \<Rightarrow>
                  logger ''error'' ''custom property not created''
                    (add_to ''custom_properties'' ''failed'' 1 s2)))"

definition migrate_custom_properties :: "menv \<Rightarrow> mig \<Rightarrow> mig" where
  "migrate_custom_properties e s =
     (let s0 = logger ''info'' ''migrating custom properties'' s;
          (r, s1) = source_paginated e [Lit ''/custom-properties''] None s0
      in case r of
           Inl x \<Rightarrow> raise x s1
         | Inr properties \<Rightarrow>
             for_each (migrate_custom_property e) properties
               (set_total ''custom_properties'' (int (length properties)) s1))"

definition migrate_tag :: "menv \<Rightarrow> json \<Rightarrow> mig \<Rightarrow> mig" where
  "migrate_tag e tag s =
     (case getitem_id tag of
        Inl x \<Rightarrow> raise x s
      | Inr (kvs, tag_id) \<Rightarrow>
          (let tag_name = dget kvs ''name'' (JStr (render e [Lit ''Tag '', Val tag_id]));
               new_tag = JObj [(''name'', tag_name), (''color'', dget kvs ''color'' JNull)];
               s1 = logger ''info'' ''creating tag'' s;
               (result, s2) = target_create e [Lit ''/tags''] new_tag s1
           in case has_id result of
                Inl x \<Rightarrow> raise x s2
              | Inr True \<Rightarrow>
                  (case getitem result ''id'' of
                     Inl x \<Rightarrow> raise x s2
                   | Inr new_id \<Rightarrow>
                       and_then (set_id ''tags'' tag_id new_id)
                         (\<lambda>t. logger ''info'' ''tag created'' (add_to ''tags'' ''migrated'' 1 t)) s2)
              | Inr False \<Rightarrow>
                  logger ''error'' ''tag not created'' (add_to ''tags'' ''failed'' 1 s2)))"

definition migrate_tags :: "menv \<Rightarrow> mig \<Rightarrow> mig" where
  "migrate_tags e s =
     (let s0 = logger ''info'' ''migrating tags'' s;
          (r, s1) = source_paginated e [Lit ''/tags''] None s0
      in case r of
           Inl x \<Rightarrow> raise x s1
         | Inr tags \<Rightarrow>
             for_each (migrate_tag e) tags (set_total ''tags'' (int (length tags)) s1))"

section \<open>KaitenMigration: spaces, boards, columns and lanes\<close>

definition migrate_column :: "menv \<Rightarrow> json \<Rightarrow> json \<Rightarrow> mig \<Rightarrow> mig" where
  "migrate_column e new_board_id col s =
     (case getitem_id col of
        Inl x \<Rightarrow> raise x s
      | Inr (kvs, col_id) \<Rightarrow>
          (let new_col = JObj [(''board_id'', new_board_id), (''title'', dget kvs ''title'' (JStr [])),
                               (''type'', dget kvs ''type'' (JInt 1)),
                               (''sort_order'', dget kvs ''sort_order'' (JInt 0))];
               (result, s1) = target_create e [Lit ''/columns''] new_col s
           in case has_id result of
                Inl x \<Rightarrow> raise x s1
              | Inr True \<Rightarrow>
                  (case getitem result ''id'' of
                     Inl x \<Rightarrow> raise x s1
                   | Inr new_id \<Rightarrow>
                       and_then (set_id ''columns'' col_id new_id)
                         (logger ''debug'' ''column created'') s1)
              | Inr False \<Rightarrow> s1))"

definition migrate_lane :: "menv \<Rightarrow> json \<Rightarrow> json \<Rightarrow> mig \<Rightarrow> mig" where
  "migrate_lane e new_board_id lane s =
     (case getitem_id lane of
        Inl x \<Rightarrow> raise x s
      | Inr (kvs, lane_id) \<Rightarrow>
          (let new_lane = JObj [(''board_id'', new_board_id), (''title'', dget kvs ''title'' (JStr [])),
                                (''sort_order'', dget kvs ''sort_order'' (JInt 0))];
               (result, s1) = target_create e [Lit ''/lanes''] new_lane s
           in case has_id result of
                Inl x \<Rightarrow> raise x s1
              | Inr True \<Rightarrow>
                  (case getitem result ''id'' of
                     Inl x \<Rightarrow> raise x s1
                   | Inr new_id \<Rightarrow>
                       and_then (set_id ''lanes'' lane_id new_id)
                         (logger ''debug'' ''lane created'') s1)
              | Inr False \<Rightarrow> s1))"

definition migrate_columns_and_lanes :: "menv \<Rightarrow> json \<Rightarrow> json \<Rightarrow> json \<Rightarrow> mig \<Rightarrow> mig" where
  "migrate_columns_and_lanes e old_board_id new_board_id board_data s =
     (case as_dict board_data of
        Inl x \<Rightarrow> raise x s
      | Inr kvs \<Rightarrow>
          (case py_iter (dget kvs ''columns'' (JList [])) of
             Inl x \<Rightarrow> raise x s
           | Inr columns \<Rightarrow>
               and_then (for_each (migrate_column e new_board_id) columns)
                 (\<lambda>t. case py_iter (dget kvs ''lanes'' (JList [])) of
                         Inl x \<Rightarrow> raise x t
                       | Inr lanes \<Rightarrow> for_each (migrate_lane e new_board_id) lanes t) s))"

definition migrate_board :: "menv \<Rightarrow> json \<Rightarrow> json \<Rightarrow> mig \<Rightarrow> mig" where
  "migrate_board e new_space_id board s =
     (case getitem_id board of
        Inl x \<Rightarrow> raise x s
      | Inr (kvs, board_id) \<Rightarrow>
          (let board_title = dget kvs ''title'' (JStr (render e [Lit ''Board '', Val board_id]));
               new_board = JObj [(''title'', board_title),
                                 (''description'', dget kvs ''description'' (JStr [])),
                                 (''space_id'', new_space_id)];
               s1 = logger ''info'' ''creating board'' s;
               (result, s2) = target_create e [Lit ''/boards''] new_board s1
           in case has_id result of
                Inl x \<Rightarrow> raise x s2
              | Inr True \<Rightarrow>
                  (case getitem result ''id'' of
                     Inl x \<Rightarrow> raise x s2
                   | Inr new_id \<Rightarrow>
                       and_then (set_id ''boards'' board_id new_id)
                         (\<lambda>t. let t1 = logger ''info'' ''board created''
                                          (add_to ''boards'' ''migrated'' 1 t);
                                   (board_details, t2) =
                                     source_fetch e [Lit ''/boards/'', Val board_id] t1
                               in if truthy board_details
                                  then migrate_columns_and_lanes e board_id new_id board_details t2
                                  else t2) s2)
              | Inr False \<Rightarrow>
                  logger ''error'' ''board not created'' (add_to ''boards'' ''failed'' 1 s2)))"

definition migrate_boards_in_space :: "menv \<Rightarrow> json \<Rightarrow> json \<Rightarrow> mig \<Rightarrow> mig" where
  "migrate_boards_in_space e old_space_id new_space_id s =
     (let (r, s1) = source_paginated e [Lit ''/spaces/'', Val old_space_id, Lit ''/boards''] None s
      in case r of
           Inl x \<Rightarrow> raise x s1
         | Inr boards \<Rightarrow>
             for_each (migrate_board e new_space_id) boards
               (add_to ''boards'' ''total'' (int (length boards)) s1))"

definition migrate_space :: "menv \<Rightarrow> json \<Rightarrow> mig \<Rightarrow> mig" where
  "migrate_space e space s =
     (case as_dict space of
        Inl x \<Rightarrow> raise x s
      | Inr kvs \<Rightarrow>
          if truthy (dget kvs ''archived'' JNull)
          then logger ''info'' ''skipping archived space'' s
          else (case getitem_id space of
                  Inl x \<Rightarrow> raise x s
                | Inr (kvs', space_id) \<Rightarrow>
                    (let space_title = dget kvs ''title'' (JStr (render e [Lit ''Space '', Val space_id]));
                         new_space = JObj [(''title'', space_title),
                                           (''access'', dget kvs ''access'' (JStr ''private''))];
                         s1 = logger ''info'' ''creating space'' s;
                         (result, s2) = target_create e [Lit ''/spaces''] new_space s1
                     in case has_id result of
                          Inl x \<Rightarrow> raise x s2
                        | Inr False \<Rightarrow>
                            logger ''error'' ''space not created'' (add_to ''spaces'' ''failed'' 1 s2)
                        | Inr True \<Rightarrow>
                            (case getitem result ''id'' of
                               Inl x \<Rightarrow> raise x s2
                             | Inr new_space_id \<Rightarrow>
                                 and_then (set_id ''spaces'' space_id new_space_id)
                                   (\<lambda>t. migrate_boards_in_space e space_id new_space_id
                                          (logger ''info'' ''space created''
                                             (add_to ''spaces'' ''migrated'' 1 t))) s2))))"

definition migrate_spaces_and_boards :: "menv \<Rightarrow> mig \<Rightarrow> mig" where
  "migrate_spaces_and_boards e s =
     (let s0 = logger ''info'' ''migrating spaces and boards'' s;
          (r, s1) = source_paginated e [Lit ''/spaces''] None s0
      in case r of
           Inl x \<Rightarrow> raise x s1
         | Inr spaces \<Rightarrow>
             for_each (migrate_space e) spaces (set_total ''spaces'' (int (length spaces)) s1))"

section \<open>KaitenMigration: cards\<close>

definition migrate_card_tag :: "menv \<Rightarrow> json \<Rightarrow> json \<Rightarrow> mig \<Rightarrow> mig" where
  "migrate_card_tag e new_card_id tag s =
     (case as_dict tag of
        Inl x \<Rightarrow> raise x s
      | Inr kvs \<Rightarrow>
          (case lookup_id ''tags'' (dget kvs ''id'' JNull) s of
             Inl x \<Rightarrow> raise x s
           | Inr new_tag_id \<Rightarrow>
               if truthy new_tag_id
               then snd (target_create e [Lit ''/cards/'', Val new_card_id, Lit ''/tags'']
                           (JObj [(''tag_id'', new_tag_id)]) s)
               else s))"

definition migrate_card_tags :: "menv \<Rightarrow> json \<Rightarrow> json \<Rightarrow> json \<Rightarrow> mig \<Rightarrow> mig" where
  "migrate_card_tags e old_card_id new_card_id tags s =
     (case py_iter tags of
        Inl x \<Rightarrow> raise x s
      | Inr ts \<Rightarrow> for_each (migrate_card_tag e new_card_id) ts s)"

text \<open>
  The rewriting of a card's custom properties: a key \<^verbatim>\<open>id_N\<close> becomes \<^verbatim>\<open>id_M\<close> when
  the property \<open>N\<close> is mapped to \<open>M\<close>; other keys and unmapped properties are dropped.
\<close>

definition split_second :: "string \<Rightarrow> string" where
  "split_second key = takeWhile (\<lambda>c. c \<noteq> CHR ''_'') (drop 1 (dropWhile (\<lambda>c. c \<noteq> CHR ''_'') key))"

fun rewrite_properties ::
  "menv \<Rightarrow> mig \<Rightarrow> (string \<times> json) list \<Rightarrow> (string \<times> json) list
     \<Rightarrow> pyerror + (string \<times> json) list" where
  "rewrite_properties e s [] new_properties = Inr new_properties"
| "rewrite_properties e s (kv # rest) new_properties =
     (if starts_with ''id_'' (fst kv)
      then (case py_int e (split_second (fst kv)) of
              None \<Rightarrow> Inl ValueError
            | Some old_prop_id \<Rightarrow>
                (let new_prop_id = dict_get (id_map s ''properties'') (JInt old_prop_id)
                 in if truthy new_prop_id
                    then rewrite_properties e s rest
                           (AList.update (render e [Lit ''id_'', Val new_prop_id]) (snd kv)
                              new_properties)
                    else rewrite_properties e s rest new_properties))
      else rewrite_properties e s rest new_properties)"

definition card_properties :: "menv \<Rightarrow> mig \<Rightarrow> json \<Rightarrow> pyerror + (string \<times> json) list" where
  "card_properties e s properties =
     (if truthy properties
      then (case as_dict properties of
              Inl x \<Rightarrow> Inl x
            | Inr kvs \<Rightarrow> rewrite_properties e s kvs [])
      else Inr [])"

text \<open>
  \<^verbatim>\<open>migrate_single_card\<close> in two parts: the resolution of the card's board, column and
  lane through \<^verbatim>\<open>id_map\<close>, and, once they are resolved, the creation of the card
  (\<open>create_card\<close>: the body of the function from \<^verbatim>\<open>new_card = {...}\<close> on).
\<close>

definition create_card ::
  "menv \<Rightarrow> (string \<times> json) list \<Rightarrow> json \<Rightarrow> json \<Rightarrow> json \<Rightarrow> json \<Rightarrow> json \<Rightarrow> mig \<Rightarrow> mig" where
  "create_card e kvs card_id card_title new_board_id new_column_id new_lane_id s =
     (case card_properties e s (dget kvs ''properties'' (JObj [])) of
        Inl x \<Rightarrow> raise x s
      | Inr new_properties \<Rightarrow>
          (let new_card =
                 JObj ([(''title'', card_title),
                        (''description'', dget kvs ''description'' JNull),
                        (''board_id'', new_board_id),
                        (''column_id'', new_column_id),
                        (''lane_id'', new_lane_id),
                        (''asap'', dget kvs ''asap'' (JBool False)),
                        (''due_date'', dget kvs ''due_date'' JNull),
                        (''size_text'', dget kvs ''size_text'' JNull)] @
                       (if new_properties \<noteq> []
                        then [(''properties'', JObj new_properties)]
                        else []));
               s1 = logger ''info'' ''creating card'' s;
               (result, s2) = target_create e [Lit ''/cards''] new_card s1
           in case has_id result of
                Inl x \<Rightarrow> raise x s2
              | Inr True \<Rightarrow>
                  (case getitem result ''id'' of
                     Inl x \<Rightarrow> raise x s2
                   | Inr new_id \<Rightarrow>
                       and_then (set_id ''cards'' card_id new_id)
                         (\<lambda>t. migrate_card_tags e card_id new_id (dget kvs ''tags'' (JList []))
                                (logger ''info'' ''card created''
                                   (add_to ''cards'' ''migrated'' 1 t))) s2)
              | Inr False \<Rightarrow>
                  logger ''error'' ''card not created'' (add_to ''cards'' ''failed'' 1 s2)))"

definition migrate_single_card :: "menv \<Rightarrow> json \<Rightarrow> mig \<Rightarrow> mig" where
  "migrate_single_card e card_rec s =
     (case getitem_id card_rec of
        Inl x \<Rightarrow> raise x s
      | Inr (kvs, card_id) \<Rightarrow>
          (let card_title = dget kvs ''title'' (JStr (render e [Lit ''Card '', Val card_id]))
           in case lookup_id ''boards'' (dget kvs ''board_id'' JNull) s of
                Inl x \<Rightarrow> raise x s
              | Inr new_board_id \<Rightarrow>
                  if \<not> truthy new_board_id
                  then add_to ''cards'' ''failed'' 1
                         (logger ''warning'' ''skipping card: board not found'' s)
                  else (case lookup_id ''columns'' (dget kvs ''column_id'' JNull) s of
                          Inl x \<Rightarrow> raise x s
                        | Inr new_column_id \<Rightarrow>
                            (case (if truthy (dget kvs ''lane_id'' JNull)
                                   then lookup_id ''lanes'' (dget kvs ''lane_id'' JNull) s
                                   else Inr JNull) of
                               Inl x \<Rightarrow> raise x s
                             | Inr new_lane_id \<Rightarrow>
                                 if \<not> truthy new_column_id
                                 then add_to ''cards'' ''failed'' 1
                                        (logger ''warning'' ''skipping card: column not found'' s)
                                 else create_card e kvs card_id card_title new_board_id
                                        new_column_id new_lane_id s))))"

definition migrate_cards :: "menv \<Rightarrow> mig \<Rightarrow> mig" where
  "migrate_cards e s =
     (let s0 = logger ''info'' ''migrating cards'' s;
          (r, s1) = source_paginated e [Lit ''/cards'']
                      (Some [(''additional_card_fields'', JStr ''description''), (''condition'', JInt 1)]) s0
      in case r of
           Inl x \<Rightarrow> raise x s1
         | Inr cards \<Rightarrow>
             for_each (migrate_single_card e) cards
               (logger ''info'' ''cards found'' (set_total ''cards'' (int (length cards)) s1)))"

section \<open>KaitenMigration: comments, checklists and card relations\<close>

definition migrate_comment :: "menv \<Rightarrow> json \<Rightarrow> json \<Rightarrow> mig \<Rightarrow> mig" where
  "migrate_comment e new_card_id comment s =
     (case as_dict comment of
        Inl x \<Rightarrow> raise x s
      | Inr kvs \<Rightarrow>
          (let (result, s1) = target_create e [Lit ''/card-comments/add-comment'']
                                (JObj [(''card_id'', new_card_id), (''text'', dget kvs ''text'' (JStr []))]) s
           in if truthy result then add_to ''comments'' ''migrated'' 1 s1
              else add_to ''comments'' ''failed'' 1 s1))"

definition migrate_comments_of :: "menv \<Rightarrow> json \<times> json \<Rightarrow> mig \<Rightarrow> mig" where
  "migrate_comments_of e ids s =
     (let (r, s1) = source_paginated e [Lit ''/cards/'', Val (fst ids), Lit ''/comments''] None s
      in case r of
           Inl x \<Rightarrow> raise x s1
         | Inr comments \<Rightarrow>
             for_each (migrate_comment e (snd ids)) comments
               (add_to ''comments'' ''total'' (int (length comments)) s1))"

definition migrate_comments :: "menv \<Rightarrow> mig \<Rightarrow> mig" where
  "migrate_comments e s =
     and_then (for_each (migrate_comments_of e) (id_map s ''cards''))
       (logger ''info'' ''comments migrated'')
       (logger ''info'' ''migrating comments'' s)"

definition migrate_checklist_item :: "menv \<Rightarrow> json \<Rightarrow> json \<Rightarrow> mig \<Rightarrow> mig" where
  "migrate_checklist_item e new_checklist_id item s =
     (case as_dict item of
        Inl x \<Rightarrow> raise x s
      | Inr kvs \<Rightarrow>
          snd (target_create e [Lit ''/card-checklist-items'']
                 (JObj [(''checklist_id'', new_checklist_id), (''text'', dget kvs ''text'' (JStr [])),
                        (''checked'', dget kvs ''checked'' (JBool False))]) s))"

definition migrate_checklist :: "menv \<Rightarrow> json \<Rightarrow> json \<Rightarrow> mig \<Rightarrow> mig" where
  "migrate_checklist e new_card_id checklist s =
     (case as_dict checklist of
        Inl x \<Rightarrow> raise x s
      | Inr kvs \<Rightarrow>
          (let (result, s1) = target_create e [Lit ''/card-checklists'']
                                (JObj [(''card_id'', new_card_id), (''name'', dget kvs ''name'' (JStr []))]) s
           in case has_id result of
                Inl x \<Rightarrow> raise x s1
              | Inr True \<Rightarrow>
                  (case getitem result ''id'' of
                     Inl x \<Rightarrow> raise x s1
                   | Inr new_checklist_id \<Rightarrow>
                       (let s2 = add_to ''checklists'' ''migrated'' 1 s1
                        in case py_iter (dget kvs ''items'' (JList [])) of
                             Inl x \<Rightarrow> raise x s2
                           | Inr items \<Rightarrow>
                               for_each (migrate_checklist_item e new_checklist_id) items s2))
              | Inr False \<Rightarrow> add_to ''checklists'' ''failed'' 1 s1))"

definition migrate_checklists_of :: "menv \<Rightarrow> json \<times> json \<Rightarrow> mig \<Rightarrow> mig" where
  "migrate_checklists_of e ids s =
     (let (r, s1) = source_paginated e [Lit ''/cards/'', Val (fst ids), Lit ''/checklists''] None s
      in case r of
           Inl x \<Rightarrow> raise x s1
         | Inr checklists \<Rightarrow>
             for_each (migrate_checklist e (snd ids)) checklists
               (add_to ''checklists'' ''total'' (int (length checklists)) s1))"

definition migrate_checklists :: "menv \<Rightarrow> mig \<Rightarrow> mig" where
  "migrate_checklists e s =
     and_then (for_each (migrate_checklists_of e) (id_map s ''cards''))
       (logger ''info'' ''checklists migrated'')
       (logger ''info'' ''migrating checklists'' s)"

text \<open>
  \<^verbatim>\<open>migrate_card_relations\<close> counts its successes and failures in two local variables
  that only reach the log; they are not part of the state.
\<close>

definition migrate_child :: "menv \<Rightarrow> json \<Rightarrow> json \<Rightarrow> mig \<Rightarrow> mig" where
  "migrate_child e new_card_id child s =
     (case as_dict child of
        Inl x \<Rightarrow> raise x s
      | Inr kvs \<Rightarrow>
          (case lookup_id ''cards'' (dget kvs ''id'' JNull) s of
             Inl x \<Rightarrow> raise x s
           | Inr new_child_id \<Rightarrow>
               if truthy new_child_id
               then snd (target_create e [Lit ''/cards/'', Val new_card_id, Lit ''/children'']
                           (JObj [(''child_id'', new_child_id)]) s)
               else s))"

definition migrate_children_of :: "menv \<Rightarrow> json \<times> json \<Rightarrow> mig \<Rightarrow> mig" where
  "migrate_children_of e ids s =
     (let (r, s1) = source_paginated e [Lit ''/cards/'', Val (fst ids), Lit ''/children''] None s
      in case r of
           Inl x \<Rightarrow> raise x s1
         | Inr children \<Rightarrow> for_each (migrate_child e (snd ids)) children s1)"

definition migrate_card_relations :: "menv \<Rightarrow> mig \<Rightarrow> mig" where
  "migrate_card_relations e s =
     and_then (for_each (migrate_children_of e) (id_map s ''cards''))
       (logger ''info'' ''relations migrated'')
       (logger ''info'' ''migrating card relations'' s)"

section \<open>KaitenMigration: the whole run and its report\<close>

text \<open>
  \<^verbatim>\<open>print_stats\<close> logs one line for each entity kind whose total is positive, in the
  order of the \<^verbatim>\<open>stats\<close> dict; \<open>stats_rows\<close> gives the kind and the numbers migrated,
  total and failed of each line.
\<close>

definition stats_rows :: "mig \<Rightarrow> (string \<times> int \<times> int \<times> int) list" where
  "stats_rows s =
     map (\<lambda>k. (k, stats s k ''migrated'', stats s k ''total'', stats s k ''failed''))
       (filter (\<lambda>k. stats s k ''total'' > 0)
          [''spaces'', ''boards'', ''cards'', ''comments'', ''checklists'', ''tags'',
           ''custom_properties''])"

definition print_stats :: "mig \<Rightarrow> mig" where
  "print_stats s = for_each (\<lambda>row. logger ''info'' (''stats: '' @ fst row)) (stats_rows s) s"

text \<open>
  \<^verbatim>\<open>migrate_all\<close>: the seven stages in order inside one \<^verbatim>\<open>try\<close>; an exception of any
  stage ends the stages, is logged and is not raised further.
\<close>

definition migrate_all :: "menv \<Rightarrow> mig \<Rightarrow> mig" where
  "migrate_all e s =
     (let s1 = and_then (migrate_custom_properties e)
                (and_then (migrate_tags e)
                  (and_then (migrate_spaces_and_boards e)
                    (and_then (migrate_cards e)
                      (and_then (migrate_comments e)
                        (and_then (migrate_checklists e)
                          (migrate_card_relations e))))))
                (logger ''info'' ''migration started'' s);
          s2 = (case exc s1 of
                  None \<Rightarrow> s1
                | Some x \<Rightarrow> logger ''error'' ''migration failed with error'' (s1\<lparr>exc := None\<rparr>))
      in print_stats (logger ''info'' ''migration finished'' s2))"


section \<open>Properties of the rate governor\<close>










definition world0 :: world where
  "world0 = \<lparr>clock = 0, ticks = 0, wire = []\<rparr>"





section \<open>Properties of the transport client\<close>

lemma time_time_wire: "wire (snd (time_time e w)) = wire w"
  by (simp add: time_time_def Let_def)

lemma wire_rate_limit: "wire (snd (rate_limit e cw)) = wire (snd cw)"
  by (simp add: rate_limit_def time_time_def time_sleep_def Let_def split: prod.splits)

lemma clock_rate_limit:
  assumes "\<forall>i. 0 \<le> elapse e i"
  shows "clock (snd cw) \<le> clock (snd (rate_limit e cw))"
proof -
  have a: "0 \<le> elapse e (ticks (snd cw))" and b: "0 \<le> elapse e (Suc (ticks (snd cw)))"
    using assms by blast+
  show ?thesis using a b
    by (simp add: rate_limit_def time_time_def time_sleep_def Let_def split: prod.splits)
qed

lemma request_final:
  assumes "respond e (length (wire (snd cw))) (m, ep, kw) = Response st tx (Some j)"
    and "st \<noteq> 429" and "\<not> (400 \<le> st \<and> st < 600)" and "tx \<noteq> []"
  shows "request e m ep kw cw =
     Some (j, fst (rate_limit e cw),
       (snd (rate_limit e cw))\<lparr>wire := wire (snd cw) @
          [(clock (snd (rate_limit e cw)), (m, ep, kw))]\<rparr>)"
  using assms by (subst request.simps) (auto simp add: wire_rate_limit Let_def)

lemma request_429:
  assumes "respond e (length (wire (snd cw))) (m, ep, kw) = Response 429 tx js"
  shows "request e m ep kw cw =
     request e m ep kw (fst (rate_limit e cw),
       time_sleep 2 ((snd (rate_limit e cw))\<lparr>wire := wire (snd cw) @
          [(clock (snd (rate_limit e cw)), (m, ep, kw))]\<rparr>))"
  using assms by (subst request.simps) (simp add: wire_rate_limit Let_def)

text \<open>
  Claim C5. When the transport answers 429 to the first attempt of a request and 200 with
  a record to the second, \<^verbatim>\<open>_request\<close> returns that record: the same method, path and
  arguments are put on the wire twice, the second time at least 2 seconds after the
  first, and the caller sees the record only.
\<close>

theorem retry_after_429:
  assumes mono: "\<forall>i. 0 \<le> elapse e i"
    and first: "respond e (length (wire (snd cw))) (m, ep, kw) = Response 429 t1 j1"
    and second: "respond e (Suc (length (wire (snd cw)))) (m, ep, kw) = Response 200 t2 (Some r)"
    and body: "t2 \<noteq> []"
  shows "\<exists>c' w' s1 s2. request e m ep kw cw = Some (r, c', w') \<and>
           wire w' = wire (snd cw) @ [(s1, (m, ep, kw)), (s2, (m, ep, kw))] \<and>
           s1 + 2 \<le> s2"
proof -
  define cw1 where "cw1 = rate_limit e cw"
  define s1 where "s1 = clock (snd cw1)"
  define cw2 where "cw2 = (fst cw1, time_sleep 2 ((snd cw1)\<lparr>wire := wire (snd cw) @ [(s1, (m, ep, kw))]\<rparr>))"
  define cw3 where "cw3 = rate_limit e cw2"
  define s2 where "s2 = clock (snd cw3)"
  have len2: "length (wire (snd cw2)) = Suc (length (wire (snd cw)))"
    by (simp add: cw2_def time_sleep_def)
  have w2: "wire (snd cw2) = wire (snd cw) @ [(s1, (m, ep, kw))]"
    by (simp add: cw2_def time_sleep_def)
  have "request e m ep kw cw = request e m ep kw cw2"
    unfolding cw2_def s1_def cw1_def by (rule request_429[OF first])
  also have "\<dots> = Some (r, fst cw3, (snd cw3)\<lparr>wire := wire (snd cw2) @ [(s2, (m, ep, kw))]\<rparr>)"
    unfolding cw3_def s2_def
    by (rule request_final[where st = "200" and tx = t2]) (simp_all add: len2 second body)
  finally have res: "request e m ep kw cw =
      Some (r, fst cw3, (snd cw3)\<lparr>wire := wire (snd cw2) @ [(s2, (m, ep, kw))]\<rparr>)" .
  have "clock (snd cw2) = s1 + 2" by (simp add: cw2_def time_sleep_def s1_def)
  then have "s1 + 2 \<le> s2" unfolding s2_def cw3_def using clock_rate_limit[OF mono, of cw2] by simp
  then show ?thesis using res w2 by simp
qed


definition throttled_env :: env where
  "throttled_env =
     \<lparr>elapse = (\<lambda>i. 0),
      respond = (\<lambda>n rq. if n = 0 then Response 429 ''slow down'' None
                         else Response 200 ''{id: 7}'' (Some (JObj [(''id'', JInt 7)])))\<rparr>"

theorem retry_after_429_witness:
  "(\<forall>i. 0 \<le> elapse throttled_env i) \<and>
   respond throttled_env 0 (''POST'', ''/cards'', [(''json'', JObj [(''title'', JStr ''a'')])]) =
     Response 429 ''slow down'' None \<and>
   (\<exists>c' w' s1 s2.
      request throttled_env ''POST'' ''/cards'' [(''json'', JObj [(''title'', JStr ''a'')])]
        (new_client, world0) = Some (JObj [(''id'', JInt 7)], c', w') \<and>
      wire w' = [(s1, (''POST'', ''/cards'', [(''json'', JObj [(''title'', JStr ''a'')])])),
                 (s2, (''POST'', ''/cards'', [(''json'', JObj [(''title'', JStr ''a'')])]))] \<and>
      s1 + 2 \<le> s2)"
proof -
  have h: "\<forall>i. 0 \<le> elapse throttled_env i" by (simp add: throttled_env_def)
  show ?thesis
    using retry_after_429[OF h, of "(new_client, world0)" "''POST''" "''/cards''"
        "[(''json'', JObj [(''title'', JStr ''a'')])]" "''slow down''" None "''{id: 7}''"
        "JObj [(''id'', JInt 7)]"] h
    by (simp add: throttled_env_def world0_def)
qed

section \<open>Properties of the paginator\<close>



























end
